theory Spec2Isabelle
  imports Complex_Main
begin

section \<open>The pointing display of \<open>src/app/page.js\<close> (component \<open>PostureMonitor\<close>)\<close>

text \<open>
  JavaScript numbers are modelled by their finite values, as real numbers: the angles,
  the position and the thresholds of the page are \<^typ>\<open>real\<close>. The subtraction that forms
  the two errors rounds to a double as JavaScript does (\<open>fl\<close> below), since the tier and
  the on-target decision are taken on its result; the quotient of the bar, a continuous
  output, is exact. The one operation of the page that can leave the finite numbers, a
  division by a zero scale, is written out in \<open>getBarPercentage\<close>. The second page of the
  repository, \<open>src/app/PresentPos/page.js\<close>, shares no code with this component and is
  not modelled.
\<close>

subsection \<open>Pure helpers of the component\<close>

text \<open>\<^verbatim>\<open>const clamp = (v, min, max) => Math.max(min, Math.min(max, v));\<close>\<close>

definition clamp :: "real \<Rightarrow> real \<Rightarrow> real \<Rightarrow> real" where
  "clamp v mn mx = max mn (min mx v)"

text \<open>
  \<^verbatim>\<open>
  const getColorClass = (error) => {
    const abs = Math.abs(error);
    if (abs < 0.5) return 'status-good';
    if (abs < 1.5) return 'status-warning';
    return 'status-bad';
  };
  \<close>
\<close>

definition getColorClass :: "real \<Rightarrow> string" where
  "getColorClass error =
     (let abs = \<bar>error\<bar> in
      if abs < 0.5 then ''status-good''
      else if abs < 1.5 then ''status-warning''
      else ''status-bad'')"

text \<open>
  \<^verbatim>\<open>
  const getDynamicScale = (error) => {
    const abs = Math.abs(error);
    if (abs <= 15) return 15;
    if (abs <= 30) return 30;
    if (abs <= 45) return 45;
    if (abs <= 90) return 90;
    return 180;
  };
  \<close>
\<close>

definition getDynamicScale :: "real \<Rightarrow> real" where
  "getDynamicScale error =
     (let abs = \<bar>error\<bar> in
      if abs \<le> 15 then 15
      else if abs \<le> 30 then 30
      else if abs \<le> 45 then 45
      else if abs \<le> 90 then 90
      else 180)"

text \<open>
  \<^verbatim>\<open>const getBarPercentage = (error, scale) => clamp((Math.abs(error) / scale) * 100, 0, 100);\<close>

  In JavaScript a division by zero does not yield \<open>0\<close> as it does in HOL: a non-zero
  magnitude over a zero scale is \<open>Infinity\<close>, which the clamp brings to \<open>100\<close>, and
  \<open>0 / 0\<close> is \<open>NaN\<close>, which \<open>Math.min\<close> and \<open>Math.max\<close> hand through. The result is
  \<open>None\<close> where the page computes \<open>NaN\<close>.
\<close>

definition getBarPercentage :: "real \<Rightarrow> real \<Rightarrow> real option" where
  "getBarPercentage error scale =
     (if scale = 0 then (if error = 0 then None else Some 100)
      else Some (clamp ((\<bar>error\<bar> / scale) * 100) 0 100))"

text \<open>The tiers the scale is chosen from, in ascending order.\<close>

definition scale_tiers :: "real list" where
  "scale_tiers = [15, 30, 45, 90, 180]"

subsection \<open>JavaScript numbers\<close>

text \<open>
  A JavaScript number is a binary64 double, and a session holds the values of doubles.
  A decimal literal or a JSON number \<open>c\<close> denotes the double nearest to it, \<open>fl c\<close>, and
  \<open>a - b\<close> on doubles is the double nearest to the exact difference, \<open>fl (a - b)\<close>,
  ties going to the even significand: 53 significant bits, spacing \<open>2^-1074\<close> below
  \<open>2^-1022\<close>. Overflow to \<open>Infinity\<close> is not modelled: a result beyond the largest double
  stays finite, on the same side of every threshold of the page.
\<close>

definition pow2 :: "int \<Rightarrow> real" where
  "pow2 k = (if 0 \<le> k then 2 ^ nat k else 1 / 2 ^ nat (- k))"

text \<open>The binade of a positive number: \<open>expo x = e\<close> where \<open>2^e \<le> x < 2^(e+1)\<close>.\<close>

function expo_up :: "real \<Rightarrow> int" where
  "expo_up x = (if 2 \<le> x then expo_up (x / 2) + 1 else 0)"
  by pat_completeness auto
termination
proof (relation "measure (\<lambda>x. nat \<lfloor>x\<rfloor>)")
  show "wf (measure (\<lambda>x::real. nat \<lfloor>x\<rfloor>))" by simp
next
  fix x :: real
  assume "2 \<le> x"
  then have big: "2 \<le> \<lfloor>x\<rfloor>" by linarith
  have "\<lfloor>x / 2\<rfloor> = \<lfloor>x\<rfloor> div 2"
    using floor_divide_real_eq_div [of 2 x] by simp
  also have "\<dots> < \<lfloor>x\<rfloor>" using big by linarith
  finally have "nat \<lfloor>x / 2\<rfloor> < nat \<lfloor>x\<rfloor>" using big by linarith
  then show "(x / 2, x) \<in> measure (\<lambda>x. nat \<lfloor>x\<rfloor>)" by simp
qed

function expo_down :: "real \<Rightarrow> int" where
  "expo_down x = (if 0 < x \<and> x < 1 then expo_down (2 * x) - 1 else 0)"
  by pat_completeness auto
termination
proof (relation "measure (\<lambda>x. nat \<lfloor>1 / x\<rfloor>)")
  show "wf (measure (\<lambda>x::real. nat \<lfloor>1 / x\<rfloor>))" by simp
next
  fix x :: real
  assume "0 < x \<and> x < 1"
  then have "1 < 1 / x" by simp
  then have big: "1 \<le> \<lfloor>1 / x\<rfloor>" by linarith
  have "\<lfloor>1 / (2 * x)\<rfloor> = \<lfloor>1 / x\<rfloor> div 2"
    using floor_divide_real_eq_div [of 2 "1 / x"] by (simp add: field_simps)
  also have "\<dots> < \<lfloor>1 / x\<rfloor>" using big by linarith
  finally have "nat \<lfloor>1 / (2 * x)\<rfloor> < nat \<lfloor>1 / x\<rfloor>" using big by linarith
  then show "(2 * x, x) \<in> measure (\<lambda>x. nat \<lfloor>1 / x\<rfloor>)" by simp
qed

declare expo_up.simps [simp del] expo_down.simps [simp del]

definition expo :: "real \<Rightarrow> int" where
  "expo x = (if 1 \<le> x then expo_up x else expo_down x)"

text \<open>The nearest integer, the even one of two.\<close>

definition round_even :: "real \<Rightarrow> int" where
  "round_even y =
     (let n = \<lfloor>y\<rfloor>; r = y - of_int n
      in if r < 1 / 2 then n else if 1 / 2 < r then n + 1 else if even n then n else n + 1)"

text \<open>The spacing of the doubles in the binade of \<open>x\<close>, and the double nearest to \<open>x\<close>.\<close>

definition quantum :: "real \<Rightarrow> real" where
  "quantum x = pow2 (max (expo \<bar>x\<bar>) (- 1022) - 52)"

definition fl :: "real \<Rightarrow> real" where
  "fl x = (if x = 0 then 0 else of_int (round_even (x / quantum x)) * quantum x)"

subsection \<open>Session state: the \<open>useState\<close> hooks of the component\<close>

text \<open>
  \<^verbatim>\<open>
  const [pitch, setPitch] = useState(0);
  const [roll, setRoll] = useState(0);
  const [yaw, setYaw] = useState(0);
  const [heading, setHeading] = useState(0);
  const [gnss, setGnss] = useState({ latitude: 0, longitude: 0, altitude: 0 });
  const [connected, setConnected] = useState(false);
  const [target, setTarget] = useState({ pitch: 0, roll: 0, yaw: 0 });
  const [corrections, setCorrections] = useState({ x: 0, y: 0, z: 0 });
  const [ws, setWs] = useState(null);
  const [isAtTarget, setIsAtTarget] = useState(false);
  \<close>
  The fields of the objects \<open>target\<close>, \<open>corrections\<close> and of the \<open>imu\<close> payload carry a
  prefix (\<open>t_\<close>, \<open>c_\<close>, \<open>i_\<close>), since \<open>pitch\<close>, \<open>roll\<close> and \<open>yaw\<close> are state variables
  of their own. The socket handle \<open>ws\<close> is \<open>null\<close> (\<open>None\<close>) until the connection effect
  stores the socket; of the socket the page reads \<open>readyState\<close> only.
\<close>

record gnss_t =
  latitude :: real
  longitude :: real
  altitude :: real

record target_t =
  t_pitch :: real
  t_roll :: real
  t_yaw :: real

record corrections_t =
  c_x :: real
  c_y :: real
  c_z :: real

datatype ready_state = CONNECTING | OPEN | CLOSING | CLOSED

record websocket =
  readyState :: ready_state

record session =
  pitch :: real
  roll :: real
  yaw :: real
  heading :: real
  gnss :: gnss_t
  connected :: bool
  target :: target_t
  corrections :: corrections_t
  ws :: "websocket option"
  isAtTarget :: bool

definition initial :: session where
  "initial =
     \<lparr>pitch = 0, roll = 0, yaw = 0, heading = 0,
      gnss = \<lparr>latitude = 0, longitude = 0, altitude = 0\<rparr>,
      connected = False,
      target = \<lparr>t_pitch = 0, t_roll = 0, t_yaw = 0\<rparr>,
      corrections = \<lparr>c_x = 0, c_y = 0, c_z = 0\<rparr>,
      ws = None,
      isAtTarget = False\<rparr>"

subsection \<open>What a handler does besides setting state\<close>

text \<open>
  A handler returns the session with its setters applied, and the list of its outward
  actions in the order it performs them: \<open>ws.send(text)\<close>, the download of a file
  (\<open>a.download\<close> and the text of the blob), \<open>alert(text)\<close> and \<open>console.error(e)\<close>.
\<close>

datatype js_error = SyntaxError | TypeError

datatype effect =
    Send string
  | Download string string
  | Alert string
  | ConsoleError js_error

fun commands :: "effect list \<Rightarrow> string list" where
  "commands [] = []"
| "commands (Send c # es) = c # commands es"
| "commands (_ # es) = commands es"

fun records :: "effect list \<Rightarrow> (string \<times> string) list" where
  "records [] = []"
| "records (Download name txt # es) = (name, txt) # records es"
| "records (_ # es) = records es"

fun alerts :: "effect list \<Rightarrow> string list" where
  "alerts [] = []"
| "alerts (Alert a # es) = a # alerts es"
| "alerts (_ # es) = alerts es"

subsection \<open>Inbound frames\<close>

text \<open>
  \<^verbatim>\<open>
  socket.onopen = () => setConnected(true);
  socket.onclose = () => setConnected(false);
  socket.onerror = () => setConnected(false);
  \<close>
\<close>

definition onopen :: "session \<Rightarrow> session" where
  "onopen s = s\<lparr>connected := True\<rparr>"

definition onclose :: "session \<Rightarrow> session" where
  "onclose s = s\<lparr>connected := False\<rparr>"

definition onerror :: "session \<Rightarrow> session" where
  "onerror s = s\<lparr>connected := False\<rparr>"

text \<open>
  A decoded frame, as the handler reads it: each of \<open>data.imu\<close>, \<open>data.gnss\<close>,
  \<open>data.corrections\<close> and \<open>data.target\<close> is either absent (\<open>None\<close>: the test
  \<open>if (data.imu)\<close> fails) or an object with the numeric fields the handler copies.
\<close>

record imu_t =
  i_pitch :: real
  i_roll :: real
  i_yaw :: real
  i_heading :: real

record frame =
  d_imu :: "imu_t option"
  d_gnss :: "gnss_t option"
  d_corrections :: "corrections_t option"
  d_target :: "target_t option"

text \<open>
  \<^verbatim>\<open>
  socket.onmessage = (ev) => {
    try {
      const data = JSON.parse(ev.data);
      if (data.imu) {
        setPitch(data.imu.pitch);
        setRoll(data.imu.roll);
        setYaw(data.imu.yaw);
        setHeading(data.imu.heading);
      }
      if (data.gnss) {
        setGnss({ latitude: data.gnss.latitude, longitude: data.gnss.longitude,
                  altitude: data.gnss.altitude });
      }
      if (data.corrections) {
        setCorrections({ x: data.corrections.x, y: data.corrections.y, z: data.corrections.z });
      }
      if (data.target) {
        setTarget({ pitch: data.target.pitch, roll: data.target.roll, yaw: data.target.yaw });
      }
    } catch (e) { console.error(e); }
  };
  \<close>
  \<open>JSON.parse\<close> is the browser's, so it is a parameter of the handler: on the text of a
  frame it gives \<open>Inl e\<close> when decoding throws \<open>e\<close>, and the decoded frame otherwise.
  The four tests follow one another, each on the session the one before left.
\<close>

definition apply_imu :: "frame \<Rightarrow> session \<Rightarrow> session" where
  "apply_imu data s =
     (case d_imu data of
        None \<Rightarrow> s
      | Some imu \<Rightarrow>
          s\<lparr>pitch := i_pitch imu, roll := i_roll imu, yaw := i_yaw imu,
            heading := i_heading imu\<rparr>)"

definition apply_gnss :: "frame \<Rightarrow> session \<Rightarrow> session" where
  "apply_gnss data s =
     (case d_gnss data of
        None \<Rightarrow> s
      | Some g \<Rightarrow>
          s\<lparr>gnss := \<lparr>latitude = latitude g, longitude = longitude g,
                      altitude = altitude g\<rparr>\<rparr>)"

definition apply_corrections :: "frame \<Rightarrow> session \<Rightarrow> session" where
  "apply_corrections data s =
     (case d_corrections data of
        None \<Rightarrow> s
      | Some c \<Rightarrow> s\<lparr>corrections := \<lparr>c_x = c_x c, c_y = c_y c, c_z = c_z c\<rparr>\<rparr>)"

definition apply_target :: "frame \<Rightarrow> session \<Rightarrow> session" where
  "apply_target data s =
     (case d_target data of
        None \<Rightarrow> s
      | Some t \<Rightarrow> s\<lparr>target := \<lparr>t_pitch = t_pitch t, t_roll = t_roll t, t_yaw = t_yaw t\<rparr>\<rparr>)"

definition onmessage ::
  "(string \<Rightarrow> js_error + frame) \<Rightarrow> string \<Rightarrow> session \<Rightarrow> session \<times> effect list" where
  "onmessage JSON_parse ev_data s =
     (case JSON_parse ev_data of
        Inl e \<Rightarrow> (s, [ConsoleError e])
      | Inr data \<Rightarrow>
          (apply_target data (apply_corrections data (apply_gnss data (apply_imu data s))), []))"

subsection \<open>Derived values and the on-target effect\<close>

text \<open>
  \<^verbatim>\<open>
  const rollError = roll - target.roll;
  const pitchError = pitch - target.pitch;

  useEffect(() => {
    const at = Math.abs(rollError) < 0.2 && Math.abs(pitchError) < 0.2;
    setIsAtTarget(at);
  }, [rollError, pitchError]);
  \<close>
  Each error is the double that the subtraction yields. React runs the effect after the
  first render and after every render in which one of the two dependencies differs from
  its value at the render before. The number \<open>0.2\<close> is not a double; the literal of
  the source is the double next above it, \<open>fl 0.2\<close>. No double lies from the one up to
  the other, so that an error is below both or below neither (\<open>threshold_as_double\<close> in
  the section on the on-target flag), and the comparison is written with the number.
\<close>

definition rollError :: "session \<Rightarrow> real" where
  "rollError s = fl (roll s - t_roll (target s))"

definition pitchError :: "session \<Rightarrow> real" where
  "pitchError s = fl (pitch s - t_pitch (target s))"

definition onTargetEffect :: "session \<Rightarrow> session" where
  "onTargetEffect s =
     (let at' = (\<bar>rollError s\<bar> < 0.2 \<and> \<bar>pitchError s\<bar> < 0.2)
      in s\<lparr>isAtTarget := at'\<rparr>)"

definition rerender :: "session \<Rightarrow> session \<Rightarrow> session" where
  "rerender prev s =
     (if rollError s = rollError prev \<and> pitchError s = pitchError prev then s
      else onTargetEffect s)"

text \<open>One inbound frame: the handler, then the render that follows its updates.\<close>

definition deliver :: "(string \<Rightarrow> js_error + frame) \<Rightarrow> string \<Rightarrow> session \<Rightarrow> session" where
  "deliver JSON_parse ev_data s = rerender s (fst (onmessage JSON_parse ev_data s))"

text \<open>
  \<^verbatim>\<open>
  useEffect(() => {
    let socket;
    try {
      socket = new WebSocket('ws://localhost:2003');
      socket.onopen = ...; socket.onclose = ...; socket.onerror = ...; socket.onmessage = ...;
      setWs(socket);
    } catch (err) {
      setConnected(false);
    }
    return () => socket?.close();
  }, []);
  \<close>
  The first render is followed by both effects, in the order of the source: the connection
  effect, with the socket the constructor returns or the error it throws, and the on-target
  effect. \<open>receive\<close> is the session after a sequence of inbound frames.
\<close>

definition connect :: "js_error + websocket \<Rightarrow> session \<Rightarrow> session" where
  "connect new_WebSocket s =
     (case new_WebSocket of
        Inr socket \<Rightarrow> s\<lparr>ws := Some socket\<rparr>
      | Inl err \<Rightarrow> s\<lparr>connected := False\<rparr>)"

definition mount :: "js_error + websocket \<Rightarrow> session" where
  "mount new_WebSocket = onTargetEffect (connect new_WebSocket initial)"

definition receive :: "(string \<Rightarrow> js_error + frame) \<Rightarrow> string list \<Rightarrow> session \<Rightarrow> session" where
  "receive JSON_parse frames s = foldl (\<lambda>s ev_data. deliver JSON_parse ev_data s) s frames"

text \<open>The stored flag agrees with the errors of the session.\<close>

definition flag_current :: "session \<Rightarrow> bool" where
  "flag_current s = (isAtTarget s \<longleftrightarrow> \<bar>pitchError s\<bar> < 0.2 \<and> \<bar>rollError s\<bar> < 0.2)"

text \<open>
  \<^verbatim>\<open>
  const rollScale = getDynamicScale(rollError);
  const pitchScale = getDynamicScale(pitchError);
  const xOffset = getBarPercentage(rollError, rollScale);
  const yOffset = getBarPercentage(pitchError, pitchScale);
  \<close>
\<close>

definition rollScale :: "session \<Rightarrow> real" where
  "rollScale s = getDynamicScale (rollError s)"

definition pitchScale :: "session \<Rightarrow> real" where
  "pitchScale s = getDynamicScale (pitchError s)"

definition xOffset :: "session \<Rightarrow> real option" where
  "xOffset s = getBarPercentage (rollError s) (rollScale s)"

definition yOffset :: "session \<Rightarrow> real option" where
  "yOffset s = getBarPercentage (pitchError s) (pitchScale s)"

subsection \<open>The session record and the confirmation\<close>

text \<open>
  What the browser supplies to the export: the text \<open>new Date().toLocaleString('en-IN')\<close>,
  the number \<open>Date.now()\<close>, and \<open>Number.prototype.toString\<close>, which \<open>toFixed\<close> falls back
  on for magnitudes from \<open>10^21\<close> on.
\<close>

record browser =
  Date_toLocaleString :: string
  Date_now :: nat
  Number_toString :: "real \<Rightarrow> string"

definition nl :: string where
  "nl = [CHR 0x0A]"

definition degree :: string where
  "degree = [CHR 0xB0]"

definition digit_char :: "nat \<Rightarrow> char" where
  "digit_char d = ''0123456789'' ! d"

text \<open>The decimal digits of a natural number, most significant first; \<open>0\<close> is \<open>"0"\<close>.\<close>

fun digits :: "nat \<Rightarrow> string" where
  "digits n = (if n < 10 then [digit_char n] else digits (n div 10) @ [digit_char (n mod 10)])"

declare digits.simps [simp del]

text \<open>
  \<open>x.toFixed(f)\<close>, after ECMAScript's \<open>Number.prototype.toFixed\<close> on a finite \<open>x\<close> and
  \<open>0 \<le> f \<le> 100\<close> (the page calls it with \<open>3\<close>, \<open>6\<close> and \<open>2\<close>): the sign is split
  off; a magnitude of \<open>10^21\<close> or more is printed by \<open>Number.prototype.toString\<close>;
  otherwise \<open>n\<close> is the integer nearest to \<open>x \<times> 10^f\<close> (the larger one of two), its
  digits are padded with zeros on the left to \<open>f + 1\<close> characters, and the point is put
  before the last \<open>f\<close> of them.
\<close>

definition toFixed :: "(real \<Rightarrow> string) \<Rightarrow> real \<Rightarrow> nat \<Rightarrow> string" where
  "toFixed toString x f =
     (let s = (if x < 0 then ''-'' else []);
          x = (if x < 0 then - x else x)
      in if 10 ^ 21 \<le> x then s @ toString x
         else
           let n = nat \<lfloor>x * 10 ^ f + 1 / 2\<rfloor>;
               m = digits n;
               m = (if f \<noteq> 0
                    then (let m = (if length m \<le> f
                                   then replicate (f + 1 - length m) (CHR ''0'') @ m
                                   else m)
                          in take (length m - f) m @ ''.'' @ drop (length m - f) m)
                    else m)
           in s @ m)"

text \<open>
  \<^verbatim>\<open>
  const saveToFile = () => {
    const txt = `
  ARTILLERY POINTING LOG
  Time: ${new Date().toLocaleString('en-IN')}

  IMU:
    Pitch: ${pitch.toFixed(3)}(deg)
    Roll : ${roll.toFixed(3)}(deg)
    Yaw  : ${yaw.toFixed(3)}(deg)

  Target:
    Pitch: ${target.pitch.toFixed(3)}(deg)
    Roll : ${target.roll.toFixed(3)}(deg)

  Errors:
    Pitch: ${pitchError.toFixed(3)}(deg)
    Roll : ${rollError.toFixed(3)}(deg)

  GNSS:
    Lat: ${gnss.latitude.toFixed(6)}
    Lon: ${gnss.longitude.toFixed(6)}
    Alt: ${gnss.altitude.toFixed(2)} m

  Status: ${isAtTarget ? 'ON TARGET' : 'ADJUSTING'}
  `;
    const blob = new Blob([txt], { type: 'text/plain' });
    const a = document.createElement('a');
    a.href = URL.createObjectURL(blob);
    a.download = `Artillery_${Date.now()}.txt`;
    a.click();
  };
  \<close>
  where \<open>(deg)\<close> stands for the degree sign U+00B0 of the source, and the lines of the
  template start in its first column. The template opens with a line break and closes
  with one. The text \<open>txt\<close> of the source is \<open>record_txt\<close> here.
\<close>

definition record_txt :: "browser \<Rightarrow> session \<Rightarrow> string" where
  "record_txt b s =
     nl @
     ''ARTILLERY POINTING LOG'' @ nl @
     ''Time: '' @ Date_toLocaleString b @ nl @
     nl @
     ''IMU:'' @ nl @
     ''  Pitch: '' @ toFixed (Number_toString b) (pitch s) 3 @ degree @ nl @
     ''  Roll : '' @ toFixed (Number_toString b) (roll s) 3 @ degree @ nl @
     ''  Yaw  : '' @ toFixed (Number_toString b) (yaw s) 3 @ degree @ nl @
     nl @
     ''Target:'' @ nl @
     ''  Pitch: '' @ toFixed (Number_toString b) (t_pitch (target s)) 3 @ degree @ nl @
     ''  Roll : '' @ toFixed (Number_toString b) (t_roll (target s)) 3 @ degree @ nl @
     nl @
     ''Errors:'' @ nl @
     ''  Pitch: '' @ toFixed (Number_toString b) (pitchError s) 3 @ degree @ nl @
     ''  Roll : '' @ toFixed (Number_toString b) (rollError s) 3 @ degree @ nl @
     nl @
     ''GNSS:'' @ nl @
     ''  Lat: '' @ toFixed (Number_toString b) (latitude (gnss s)) 6 @ nl @
     ''  Lon: '' @ toFixed (Number_toString b) (longitude (gnss s)) 6 @ nl @
     ''  Alt: '' @ toFixed (Number_toString b) (altitude (gnss s)) 2 @ '' m'' @ nl @
     nl @
     ''Status: '' @ (if isAtTarget s then ''ON TARGET'' else ''ADJUSTING'') @ nl"

definition saveToFile :: "browser \<Rightarrow> session \<Rightarrow> effect" where
  "saveToFile b s = Download (''Artillery_'' @ digits (Date_now b) @ ''.txt'') (record_txt b s)"

text \<open>
  \<^verbatim>\<open>
  const handleSet = () => {
    if (ws?.readyState === WebSocket.OPEN) {
      ws.send(JSON.stringify({ command: 'SET' }));
      saveToFile();
      alert('SET confirmed. Position is now 0(deg) reference.');
    } else {
      alert('WebSocket not connected');
    }
  };
  \<close>
  \<open>ws?.readyState\<close> is \<open>undefined\<close> while the handle is \<open>null\<close>. The handler calls no
  setter.
\<close>

definition handleSet :: "browser \<Rightarrow> session \<Rightarrow> session \<times> effect list" where
  \<open>handleSet b s =
     (if map_option readyState (ws s) = Some OPEN
      then (s, [Send ''{"command":"SET"}'',
                saveToFile b s,
                Alert (''SET confirmed. Position is now 0'' @ degree @ '' reference.'')])
      else (s, [Alert ''WebSocket not connected'']))\<close>

text \<open>
  \<^verbatim>\<open>
  <button onClick={handleSet} disabled={!connected} className={...}>SET</button>
  \<close>
  The operator reaches \<open>handleSet\<close> through this button, and a disabled button
  dispatches no click.
\<close>

definition click_SET :: "browser \<Rightarrow> session \<Rightarrow> session \<times> effect list" where
  "click_SET b s = (if \<not> connected s then (s, []) else handleSet b s)"

subsection \<open>Reading a printed number\<close>










subsection \<open>Sample inputs\<close>

text \<open>
  Concrete inputs for evaluating the handlers: a decoder that knows two frames and rejects
  every other text, a browser clock, and sessions. Every decimal is rounded to its double,
  as \<open>JSON.parse\<close> does.
\<close>

definition sample_parse :: "string \<Rightarrow> js_error + frame" where
  \<open>sample_parse raw =
     (if raw = ''{"imu":{"pitch":1.0,"roll":0,"yaw":5,"heading":90}}''
      then Inr \<lparr>d_imu = Some \<lparr>i_pitch = 1.0, i_roll = 0, i_yaw = 5, i_heading = 90\<rparr>,
                 d_gnss = None, d_corrections = None, d_target = None\<rparr>
      else if raw = ''{"gnss":{"latitude":28.6139,"longitude":77.209,"altitude":216}}''
      then Inr \<lparr>d_imu = None,
                 d_gnss = Some \<lparr>latitude = fl 28.6139, longitude = fl 77.209,
                                altitude = 216\<rparr>,
                 d_corrections = None, d_target = None\<rparr>
      else Inl SyntaxError)\<close>

definition sample_browser :: browser where
  "sample_browser =
     \<lparr>Date_toLocaleString = ''1/11/2026, 10:15:00 am'',
      Date_now = 1793508300000,
      Number_toString = (\<lambda>x. ''1e+21'')\<rparr>"

text \<open>On target, the flag set and the socket open.\<close>

definition sample_open :: session where
  "sample_open =
     \<lparr>pitch = fl 1.2346, roll = fl (- 0.0004), yaw = fl 359.9996, heading = 90,
      gnss = \<lparr>latitude = fl 28.6139, longitude = fl 77.209, altitude = fl 216.004\<rparr>,
      connected = True,
      target = \<lparr>t_pitch = fl 1.2, t_roll = fl 0.1, t_yaw = 0\<rparr>,
      corrections = \<lparr>c_x = 0, c_y = 0, c_z = 0\<rparr>,
      ws = Some \<lparr>readyState = OPEN\<rparr>,
      isAtTarget = True\<rparr>"

text \<open>The same after the close event, after a closing handshake began, and with a flag
  that lags behind an open socket.\<close>

definition sample_closed :: session where
  "sample_closed = sample_open\<lparr>connected := False, ws := Some \<lparr>readyState = CLOSED\<rparr>\<rparr>"

definition sample_closing :: session where
  "sample_closing = sample_open\<lparr>ws := Some \<lparr>readyState = CLOSING\<rparr>\<rparr>"

definition sample_stale :: session where
  "sample_stale = sample_open\<lparr>connected := False\<rparr>"




text \<open>A pitch of \<open>-0.12\<close> against a target of \<open>0.08\<close>.\<close>

definition sample_edge :: session where
  "sample_edge =
     initial\<lparr>pitch := fl (- 0.12), target := \<lparr>t_pitch = fl 0.08, t_roll = 0, t_yaw = 0\<rparr>\<rparr>"

section \<open>Properties\<close>

subsection \<open>Rounding to a double\<close>

lemma expo_up_eq: "2 ^ n \<le> x \<Longrightarrow> x < 2 ^ Suc n \<Longrightarrow> expo_up x = int n"
proof (induction n arbitrary: x)
  case 0
  then show ?case by (subst expo_up.simps) simp
next
  case (Suc n)
  have "(2::real) \<le> 2 ^ Suc n" by simp
  with Suc.prems have two: "2 \<le> x" by linarith
  have "expo_up (x / 2) = int n"
    using Suc.prems by (intro Suc.IH) simp_all
  with two show ?case by (subst expo_up.simps) simp
qed

lemma expo_down_eq: "1 / 2 ^ Suc n \<le> x \<Longrightarrow> x < 1 / 2 ^ n \<Longrightarrow> expo_down x = - int (Suc n)"
proof (induction n arbitrary: x)
  case 0
  then have "0 < x" "x < 1" "\<not> 2 * x < 1" by simp_all
  then show ?case
    by (subst expo_down.simps, subst expo_down.simps) simp
next
  case (Suc n)
  have "(0::real) < 1 / 2 ^ Suc (Suc n)" by simp
  with Suc.prems(1) have pos: "0 < x" by linarith
  have "(1::real) \<le> 2 ^ Suc n" by (rule one_le_power) simp
  then have "1 / 2 ^ Suc n \<le> (1::real)" by (simp add: field_simps)
  with Suc.prems(2) have small: "x < 1" by linarith
  have "expo_down (2 * x) = - int (Suc n)"
    using Suc.prems by (intro Suc.IH) (simp_all add: field_simps)
  with pos small show ?case by (subst expo_down.simps) simp
qed

lemma pow2_pos: "0 < pow2 e"
  by (simp add: pow2_def)

lemma pow2_neg: "pow2 (- int n) = 1 / 2 ^ n"
  by (cases n) (simp_all add: pow2_def nat_add_distrib)

text \<open>The exponent search finds the binade.\<close>

lemma expo_eq:
  assumes "pow2 e \<le> x" "x < pow2 (e + 1)"
  shows "expo x = e"
proof (cases "0 \<le> e")
  case True
  then have "2 ^ nat e \<le> x" "x < 2 ^ Suc (nat e)"
    using assms by (simp_all add: pow2_def nat_add_distrib)
  then have "expo_up x = int (nat e)" by (rule expo_up_eq)
  moreover have "1 \<le> x"
    using \<open>2 ^ nat e \<le> x\<close> by (rule order_trans [rotated]) simp
  ultimately show ?thesis using True by (simp add: expo_def)
next
  case False
  then have "e = - int (Suc (nat (- e - 1)))" by simp
  then obtain n where e: "e = - int (Suc n)" ..
  have next_e: "e + 1 = - int n" by (simp add: e)
  have "1 / 2 ^ Suc n \<le> x" "x < 1 / 2 ^ n"
    using assms unfolding next_e unfolding e pow2_neg by simp_all
  then have down: "expo_down x = - int (Suc n)" by (rule expo_down_eq)
  have "(1::real) \<le> 2 ^ n" by (rule one_le_power) simp
  then have "1 / 2 ^ n \<le> (1::real)" by (simp add: field_simps)
  with \<open>x < 1 / 2 ^ n\<close> have "x < 1" by linarith
  with down show ?thesis by (simp add: expo_def e)
qed

text \<open>The double nearest to a number whose binade is known.\<close>

lemma fl_normal:
  assumes "pow2 e \<le> \<bar>x\<bar>" "\<bar>x\<bar> < pow2 (e + 1)" "- 1022 \<le> e"
  shows "fl x = of_int (round_even (x / pow2 (e - 52))) * pow2 (e - 52)"
proof -
  have "expo \<bar>x\<bar> = e" using assms(1,2) by (rule expo_eq)
  then have "quantum x = pow2 (e - 52)" using assms(3) by (simp add: quantum_def)
  moreover have "x \<noteq> 0"
    using assms(1) pow2_pos [of e] by auto
  ultimately show ?thesis by (simp add: fl_def)
qed

lemma fl_zero: "fl 0 = 0"
  by (simp add: fl_def)

text \<open>Evaluation of \<open>fl\<close> on the binades the sample values lie in.\<close>

lemmas fl_eval =
  fl_zero
  fl_normal [of "- 13"] fl_normal [of "- 12"] fl_normal [of "- 11"] fl_normal [of "- 10"]
  fl_normal [of "- 9"] fl_normal [of "- 8"] fl_normal [of "- 7"] fl_normal [of "- 6"]
  fl_normal [of "- 5"] fl_normal [of "- 4"] fl_normal [of "- 3"] fl_normal [of "- 2"]
  fl_normal [of "- 1"] fl_normal [of 0] fl_normal [of 1] fl_normal [of 2] fl_normal [of 3]
  fl_normal [of 4] fl_normal [of 5] fl_normal [of 6] fl_normal [of 7] fl_normal [of 8]
  fl_normal [of 69] pow2_def round_even_def Let_def

text \<open>Powers of two: sums and order of the exponents.\<close>

lemma pow2_powr: "pow2 k = 2 powr (of_int k)"
  by (simp add: pow2_def powr_real_of_int field_simps)

lemma pow2_add: "pow2 (a + b) = pow2 a * pow2 b"
  by (simp add: pow2_powr powr_add)

lemma pow2_mono: "a \<le> b \<Longrightarrow> pow2 a \<le> pow2 b"
  by (simp add: pow2_powr)

lemma pow2_double: "pow2 (k + 1) = 2 * pow2 k"
proof -
  have "pow2 1 = 2" by (simp add: pow2_def)
  then show ?thesis by (simp add: pow2_add)
qed

lemma pow2_numeral: "pow2 52 = 2 ^ 52" "pow2 53 = 2 ^ 53"
  by (simp_all add: pow2_def)

lemma pow2_half: "pow2 (k - 1) = pow2 k / 2"
  using pow2_double [of "k - 1"] by simp

text \<open>Every positive number lies in the binade the exponent search returns.\<close>

lemma expo_up_bounds: "1 \<le> x \<Longrightarrow> pow2 (expo_up x) \<le> x \<and> x < pow2 (expo_up x + 1)"
proof (induction x rule: expo_up.induct)
  case (1 x)
  show ?case
  proof (cases "2 \<le> x")
    case True
    then have "pow2 (expo_up (x / 2)) \<le> x / 2 \<and> x / 2 < pow2 (expo_up (x / 2) + 1)"
      by (intro "1.IH") simp_all
    moreover have "expo_up x = expo_up (x / 2) + 1"
      using True by (subst expo_up.simps) simp
    ultimately show ?thesis
      using pow2_double [of "expo_up (x / 2)"] pow2_double [of "expo_up (x / 2) + 1"]
      by (simp add: add.commute)
  next
    case False
    then have "expo_up x = 0" by (subst expo_up.simps) simp
    with False "1.prems" show ?thesis by (simp add: pow2_def)
  qed
qed

lemma expo_down_bounds:
  "0 < x \<Longrightarrow> x < 1 \<Longrightarrow> pow2 (expo_down x) \<le> x \<and> x < pow2 (expo_down x + 1)"
proof (induction x rule: expo_down.induct)
  case (1 x)
  have step: "expo_down x = expo_down (2 * x) - 1"
    using "1.prems" by (subst expo_down.simps) simp
  show ?case
  proof (cases "2 * x < 1")
    case True
    have "pow2 (expo_down (2 * x)) \<le> 2 * x \<and> 2 * x < pow2 (expo_down (2 * x) + 1)"
      using "1.prems" True by (intro "1.IH") simp_all
    then show ?thesis
      using pow2_half [of "expo_down (2 * x)"] pow2_double [of "expo_down (2 * x)"]
      by (simp add: step)
  next
    case False
    then have "expo_down (2 * x) = 0" by (subst expo_down.simps) simp
    with False "1.prems" show ?thesis by (simp add: step pow2_def)
  qed
qed

lemma expo_bounds: "0 < x \<Longrightarrow> pow2 (expo x) \<le> x \<and> x < pow2 (expo x + 1)"
  using expo_up_bounds [of x] expo_down_bounds [of x] by (simp add: expo_def)

text \<open>Rounding moves a number by at most half a unit, and not across an integer.\<close>

lemma round_even_near: "\<bar>of_int (round_even z) - z\<bar> \<le> 1 / 2"
  unfolding round_even_def Let_def by (simp; linarith)

lemma round_even_le: "\<bar>z\<bar> < of_int n \<Longrightarrow> \<bar>round_even z\<bar> \<le> n"
  using round_even_near [of z] by linarith

lemma round_even_ge: "of_int n \<le> \<bar>z\<bar> \<Longrightarrow> n \<le> \<bar>round_even z\<bar>"
  using round_even_near [of z] by linarith

text \<open>Rounding to a double does not cross a power of two.\<close>

lemma fl_quantum: "fl y = of_int (round_even (y / quantum y)) * quantum y"
  by (simp add: fl_def round_even_def)

lemma fl_small:
  assumes "\<bar>y\<bar> < pow2 e" "- 1021 \<le> e"
  shows "\<bar>fl y\<bar> \<le> pow2 e"
proof (cases "y = 0")
  case True
  then show ?thesis using pow2_pos [of e] by (simp add: fl_def)
next
  case False
  define m where "m = max (expo \<bar>y\<bar>) (- 1022)"
  have q: "quantum y = pow2 (m - 52)" by (simp add: quantum_def m_def)
  have qpos: "0 < pow2 (m - 52)" by (rule pow2_pos)
  from False have b: "pow2 (expo \<bar>y\<bar>) \<le> \<bar>y\<bar>" "\<bar>y\<bar> < pow2 (expo \<bar>y\<bar> + 1)"
    using expo_bounds [of "\<bar>y\<bar>"] by simp_all
  have "\<not> e \<le> expo \<bar>y\<bar>"
  proof
    assume "e \<le> expo \<bar>y\<bar>"
    then have "pow2 e \<le> pow2 (expo \<bar>y\<bar>)" by (rule pow2_mono)
    with b(1) assms(1) show False by linarith
  qed
  then have me: "m + 1 \<le> e" using assms(2) by (simp add: m_def)
  have "pow2 (expo \<bar>y\<bar> + 1) \<le> pow2 (m + 1)" by (rule pow2_mono) (simp add: m_def)
  with b(2) have "\<bar>y\<bar> < pow2 (m + 1)" by linarith
  also have "pow2 (m + 1) = 2 ^ 53 * pow2 (m - 52)"
    using pow2_add [of 53 "m - 52"] by (simp add: pow2_numeral add.commute)
  finally have "\<bar>y / pow2 (m - 52)\<bar> < of_int (2 ^ 53)"
    using qpos by (simp add: field_simps)
  then have "\<bar>round_even (y / pow2 (m - 52))\<bar> \<le> 2 ^ 53" by (rule round_even_le)
  then have "real_of_int \<bar>round_even (y / pow2 (m - 52))\<bar> \<le> real_of_int (2 ^ 53)"
    by (rule of_int_le_iff [THEN iffD2])
  then have "\<bar>of_int (round_even (y / pow2 (m - 52)))\<bar> \<le> (2 ^ 53 :: real)"
    by simp
  then have "\<bar>fl y\<bar> \<le> 2 ^ 53 * pow2 (m - 52)"
    using qpos by (simp add: fl_quantum q abs_mult)
  also have "2 ^ 53 * pow2 (m - 52) = pow2 (m + 1)"
    using pow2_add [of 53 "m - 52"] by (simp add: pow2_numeral add.commute)
  also have "\<dots> \<le> pow2 e" using me by (rule pow2_mono)
  finally show ?thesis .
qed

lemma fl_big:
  assumes "pow2 e \<le> \<bar>y\<bar>" "- 1022 \<le> e"
  shows "pow2 e \<le> \<bar>fl y\<bar>"
proof -
  have nz: "y \<noteq> 0" using assms(1) pow2_pos [of e] by auto
  define m where "m = expo \<bar>y\<bar>"
  from nz have b: "pow2 m \<le> \<bar>y\<bar>" "\<bar>y\<bar> < pow2 (m + 1)"
    using expo_bounds [of "\<bar>y\<bar>"] by (simp_all add: m_def)
  have "\<not> m + 1 \<le> e"
  proof
    assume "m + 1 \<le> e"
    then have "pow2 (m + 1) \<le> pow2 e" by (rule pow2_mono)
    with b(2) assms(1) show False by linarith
  qed
  then have em: "e \<le> m" by simp
  with assms(2) have q: "quantum y = pow2 (m - 52)" by (simp add: quantum_def m_def)
  have qpos: "0 < pow2 (m - 52)" by (rule pow2_pos)
  have split: "pow2 m = 2 ^ 52 * pow2 (m - 52)"
    using pow2_add [of 52 "m - 52"] by (simp add: pow2_numeral)
  with b(1) have "of_int (2 ^ 52) \<le> \<bar>y / pow2 (m - 52)\<bar>"
    using qpos by (simp add: field_simps)
  then have "2 ^ 52 \<le> \<bar>round_even (y / pow2 (m - 52))\<bar>" by (rule round_even_ge)
  then have "real_of_int (2 ^ 52) \<le> real_of_int \<bar>round_even (y / pow2 (m - 52))\<bar>"
    by (rule of_int_le_iff [THEN iffD2])
  then have "(2 ^ 52 :: real) \<le> \<bar>of_int (round_even (y / pow2 (m - 52)))\<bar>"
    by simp
  then have "2 ^ 52 * pow2 (m - 52) \<le> \<bar>fl y\<bar>"
    using qpos by (simp add: fl_quantum q abs_mult)
  with split have "pow2 m \<le> \<bar>fl y\<bar>" by simp
  moreover have "pow2 e \<le> pow2 m" using em by (rule pow2_mono)
  ultimately show ?thesis by linarith
qed

text \<open>
  No double lies from the number \<open>0.2\<close> up to the double of the literal \<open>0.2\<close>: a double is
  below the one exactly when it is below the other.
\<close>

lemma fl_threshold: "\<bar>fl y\<bar> < 0.2 \<longleftrightarrow> \<bar>fl y\<bar> < 3602879701896397 / 2 ^ 54"
proof -
  consider "\<bar>y\<bar> < pow2 (- 3)" | "pow2 (- 3) \<le> \<bar>y\<bar>" "\<bar>y\<bar> < pow2 (- 3 + 1)" | "pow2 (- 2) \<le> \<bar>y\<bar>"
    by fastforce
  then show ?thesis
  proof cases
    case 1
    then have "\<bar>fl y\<bar> \<le> pow2 (- 3)" by (rule fl_small) simp
    then show ?thesis by (simp add: pow2_def)
  next
    case 2
    then have "fl y = of_int (round_even (y / pow2 (- 3 - 52))) * pow2 (- 3 - 52)"
      by (rule fl_normal) simp
    then obtain k :: int where k: "fl y = of_int k / 2 ^ 55"
      by (simp add: pow2_def)
    have A: "\<bar>fl y\<bar> = of_int \<bar>k\<bar> / 2 ^ 55" by (simp add: k)
    have B: "(real_of_int \<bar>k\<bar> / 2 ^ 55 < 0.2) = (\<bar>k\<bar> \<le> 7205759403792793)"
      by (simp add: field_simps) linarith
    have C:
      "(real_of_int \<bar>k\<bar> / 2 ^ 55 < 3602879701896397 / 2 ^ 54) = (\<bar>k\<bar> \<le> 7205759403792793)"
      by (simp add: field_simps) linarith
    show ?thesis unfolding A B C by (rule refl)
  next
    case 3
    then have "pow2 (- 2) \<le> \<bar>fl y\<bar>" by (rule fl_big) simp
    then show ?thesis by (simp add: pow2_def)
  qed
qed

subsection \<open>Severity\<close>

text \<open>
  C1. For every error \<open>e\<close> the colour class is \<open>status-good\<close> exactly when \<open>|e| < 0.5\<close>,
  \<open>status-warning\<close> exactly when \<open>0.5 \<le> |e| < 1.5\<close> and \<open>status-bad\<close> exactly when
  \<open>|e| \<ge> 1.5\<close>; the boundary magnitudes \<open>0.5\<close> and \<open>1.5\<close> (of either sign) give
  \<open>status-warning\<close> and \<open>status-bad\<close>.
\<close>

theorem getColorClass_tiers:
  "(getColorClass e = ''status-good'' \<longleftrightarrow> \<bar>e\<bar> < 0.5) \<and>
   (getColorClass e = ''status-warning'' \<longleftrightarrow> 0.5 \<le> \<bar>e\<bar> \<and> \<bar>e\<bar> < 1.5) \<and>
   (getColorClass e = ''status-bad'' \<longleftrightarrow> 1.5 \<le> \<bar>e\<bar>) \<and>
   getColorClass 0.5 = ''status-warning'' \<and> getColorClass (- 0.5) = ''status-warning'' \<and>
   getColorClass 1.5 = ''status-bad'' \<and> getColorClass (- 1.5) = ''status-bad''"
  by (simp add: getColorClass_def Let_def)

subsection \<open>Scale and bar\<close>

text \<open>
  C2. For every magnitude \<open>m\<close> the scale is one of the tiers 15, 30, 45, 90, 180; when
  \<open>m \<le> 90\<close> it is the smallest tier that is at least \<open>m\<close> (it is at least \<open>m\<close>, and no
  tier that is at least \<open>m\<close> lies below it), and when \<open>m > 90\<close> it is 180. For example
  15 gives 15, 15.0001 gives 30 and 200 gives 180.
\<close>

theorem getDynamicScale_smallest_tier:
  "getDynamicScale m \<in> set scale_tiers \<and>
   (\<bar>m\<bar> \<le> 90 \<longrightarrow>
      \<bar>m\<bar> \<le> getDynamicScale m \<and>
      (\<forall>t \<in> set scale_tiers. \<bar>m\<bar> \<le> t \<longrightarrow> getDynamicScale m \<le> t)) \<and>
   (90 < \<bar>m\<bar> \<longrightarrow> getDynamicScale m = 180) \<and>
   getDynamicScale 15 = 15 \<and> getDynamicScale 15.0001 = 30 \<and> getDynamicScale 200 = 180"
  by (simp add: getDynamicScale_def scale_tiers_def Let_def)

theorem getDynamicScale_smallest_tier_witness:
  "\<bar>37 :: real\<bar> \<le> 90 \<and> getDynamicScale 37 = 45 \<and> 45 \<in> set scale_tiers \<and>
   \<bar>37 :: real\<bar> \<le> 45 \<and> \<not> \<bar>37 :: real\<bar> \<le> 30 \<and>
   90 < \<bar>- 90.5 :: real\<bar> \<and> getDynamicScale (- 90.5) = 180"
  using getDynamicScale_smallest_tier [of 37] getDynamicScale_smallest_tier [of "- 90.5"]
  by (simp add: getDynamicScale_def scale_tiers_def)

lemma clamp_percent:
  assumes "0 \<le> v"
  shows "clamp v 0 100 = min 100 v"
  using assms by (simp add: clamp_def)

lemma getBarPercentage_min:
  assumes "0 < s"
  shows "getBarPercentage e s = Some (min 100 (100 * \<bar>e\<bar> / s))"
proof -
  have nonneg: "0 \<le> \<bar>e\<bar> / s * 100"
    using assms by simp
  have "getBarPercentage e s = Some (clamp (\<bar>e\<bar> / s * 100) 0 100)"
    using assms by (simp add: getBarPercentage_def)
  also have "\<dots> = Some (min 100 (100 * \<bar>e\<bar> / s))"
    using nonneg by (simp add: clamp_percent mult.commute)
  finally show ?thesis .
qed

text \<open>
  C4. For every error \<open>e\<close> and every scale \<open>s > 0\<close>, the bar percentage is
  \<open>min(100, 100 \<times> |e| / s)\<close>, and it lies in the closed interval from 0 to 100 whatever the
  magnitude of \<open>e\<close>.
\<close>

theorem getBarPercentage_clamped:
  assumes "0 < s"
  shows "getBarPercentage e s = Some (min 100 (100 * \<bar>e\<bar> / s)) \<and>
         (\<exists>p. getBarPercentage e s = Some p \<and> 0 \<le> p \<and> p \<le> 100)"
proof -
  have "0 \<le> min 100 (100 * \<bar>e\<bar> / s)"
    using assms by simp
  moreover have "min 100 (100 * \<bar>e\<bar> / s) \<le> 100"
    by simp
  ultimately show ?thesis
    using getBarPercentage_min [OF assms, of e] by simp
qed

theorem getBarPercentage_clamped_witness:
  "(0::real) < 15 \<and> getBarPercentage 1 15 = Some (20 / 3) \<and>
   getBarPercentage 1000 15 = Some 100 \<and> getBarPercentage (- 200) 180 = Some 100"
  using getBarPercentage_clamped [of 15 1] getBarPercentage_clamped [of 15 1000]
    getBarPercentage_clamped [of 180 "- 200"]
  by simp

lemma getDynamicScale_covers:
  assumes "\<bar>e\<bar> \<le> 180"
  shows "\<bar>e\<bar> \<le> getDynamicScale e"
  using assms by (simp add: getDynamicScale_def Let_def)

lemma getDynamicScale_pos: "0 < getDynamicScale e"
  by (simp add: getDynamicScale_def Let_def)

text \<open>The two bars of the page are always defined, at a scale that is never zero.\<close>

lemma offsets_defined:
  "xOffset s = Some (min 100 (100 * \<bar>rollError s\<bar> / rollScale s))"
  "yOffset s = Some (min 100 (100 * \<bar>pitchError s\<bar> / pitchScale s))"
  using getBarPercentage_min [OF getDynamicScale_pos]
  by (simp_all add: xOffset_def yOffset_def rollScale_def pitchScale_def)

text \<open>
  C9. For every error \<open>e\<close> with \<open>|e| \<le> 180\<close> the selected scale is at least \<open>|e|\<close>, and the
  bar percentage at that scale is the unclamped value \<open>|e| / scale \<times> 100\<close>; the unclamped
  value exceeds 100, so that the upper clamp binds, only when \<open>|e| > 180\<close>.
\<close>

theorem scale_keeps_bar_unclamped:
  "(\<bar>e\<bar> \<le> 180 \<longrightarrow>
      \<bar>e\<bar> \<le> getDynamicScale e \<and>
      getBarPercentage e (getDynamicScale e) = Some (\<bar>e\<bar> / getDynamicScale e * 100)) \<and>
   (100 < \<bar>e\<bar> / getDynamicScale e * 100 \<longrightarrow> 180 < \<bar>e\<bar>)"
proof -
  let ?sc = "getDynamicScale e"
  have pos: "0 < ?sc" by (rule getDynamicScale_pos)
  have within: "\<bar>e\<bar> / ?sc * 100 \<le> 100" if "\<bar>e\<bar> \<le> 180"
  proof -
    have "\<bar>e\<bar> \<le> ?sc" using that by (rule getDynamicScale_covers)
    then have "\<bar>e\<bar> / ?sc \<le> 1" using pos by simp
    then have "\<bar>e\<bar> / ?sc * 100 \<le> 1 * 100" by (rule mult_right_mono) simp
    then show ?thesis by (simp del: times_divide_eq_left)
  qed
  have bar: "getBarPercentage e ?sc = Some (\<bar>e\<bar> / ?sc * 100)" if "\<bar>e\<bar> \<le> 180"
  proof -
    have "0 \<le> \<bar>e\<bar> / ?sc * 100" using pos by simp
    then have "clamp (\<bar>e\<bar> / ?sc * 100) 0 100 = \<bar>e\<bar> / ?sc * 100"
      using within [OF that] by (simp add: clamp_def)
    then show ?thesis using pos by (simp add: getBarPercentage_def)
  qed
  have "180 < \<bar>e\<bar>" if "100 < \<bar>e\<bar> / ?sc * 100"
  proof (rule ccontr)
    assume "\<not> 180 < \<bar>e\<bar>"
    then have "\<bar>e\<bar> \<le> 180" by simp
    from within [OF this] that show False by simp
  qed
  with bar getDynamicScale_covers show ?thesis by blast
qed

theorem scale_keeps_bar_unclamped_witness:
  "\<bar>- 30.5 :: real\<bar> \<le> 180 \<and> getDynamicScale (- 30.5) = 45 \<and>
   getBarPercentage (- 30.5) (getDynamicScale (- 30.5)) = Some (\<bar>- 30.5\<bar> / 45 * 100) \<and>
   100 < \<bar>270 :: real\<bar> / getDynamicScale 270 * 100 \<and> 180 < \<bar>270 :: real\<bar>"
  using scale_keeps_bar_unclamped [of "- 30.5"] scale_keeps_bar_unclamped [of 270]
  by (simp add: getDynamicScale_def)

subsection \<open>Inbound frames\<close>

text \<open>The socket's open, close and error handlers write the connection flag and nothing else.\<close>

lemma lifecycle_sets_flag_only:
  "onopen s = s\<lparr>connected := True\<rparr>" "onclose s = s\<lparr>connected := False\<rparr>"
  "onerror s = s\<lparr>connected := False\<rparr>"
  "target (onopen s) = target s" "target (onclose s) = target s" "target (onerror s) = target s"
  by (simp_all add: onopen_def onclose_def onerror_def)

lemma rerender_same: "rerender s s = s"
  by (simp add: rerender_def)

lemma onmessage_malformed:
  "JSON_parse ev_data = Inl e \<Longrightarrow> onmessage JSON_parse ev_data s = (s, [ConsoleError e])"
  by (simp add: onmessage_def)

lemma deliver_malformed:
  "JSON_parse ev_data = Inl e \<Longrightarrow> deliver JSON_parse ev_data s = s"
  by (simp add: deliver_def onmessage_malformed rerender_same)

text \<open>
  C5. For every session and every inbound frame whose text fails to decode, the handler
  logs the error and returns the session as it was: orientation, position, corrections,
  target, connection flag, socket handle and on-target flag are unchanged, also after the
  render that follows. A valid frame followed by a malformed one leaves the session of the
  valid frame alone, and the session continues: a later frame is processed as if the
  malformed one had not arrived.
\<close>

theorem malformed_frame_discarded:
  assumes "JSON_parse bad = Inl e"
  shows "onmessage JSON_parse bad s = (s, [ConsoleError e]) \<and>
         deliver JSON_parse bad s = s \<and>
         deliver JSON_parse bad (deliver JSON_parse valid s) = deliver JSON_parse valid s \<and>
         deliver JSON_parse later (deliver JSON_parse bad s) = deliver JSON_parse later s"
  using assms by (simp add: onmessage_malformed deliver_malformed)

theorem malformed_frame_discarded_witness:
  \<open>sample_parse ''{"imu":'' = Inl SyntaxError \<and>
   deliver sample_parse ''{"imu":''
     (deliver sample_parse ''{"imu":{"pitch":1.0,"roll":0,"yaw":5,"heading":90}}'' initial) =
   initial\<lparr>pitch := 1, yaw := 5, heading := 90\<rparr> \<and>
   onmessage sample_parse ''{"imu":'' initial = (initial, [ConsoleError SyntaxError])\<close>
proof -
  have bad: \<open>sample_parse ''{"imu":'' = Inl SyntaxError\<close>
    by (simp add: sample_parse_def)
  have good: \<open>deliver sample_parse ''{"imu":{"pitch":1.0,"roll":0,"yaw":5,"heading":90}}'' initial
      = initial\<lparr>pitch := 1, yaw := 5, heading := 90\<rparr>\<close>
    by (simp add: deliver_def onmessage_def sample_parse_def apply_imu_def apply_gnss_def
        apply_corrections_def apply_target_def rerender_def onTargetEffect_def
        rollError_def pitchError_def initial_def fl_eval)
  from malformed_frame_discarded [where JSON_parse = sample_parse and s = initial
      and valid = \<open>''{"imu":{"pitch":1.0,"roll":0,"yaw":5,"heading":90}}''\<close>, OF bad]
    bad good
  show ?thesis by simp
qed

lemma apply_imu_fields:
  "pitch (apply_imu data s) = (case d_imu data of None \<Rightarrow> pitch s | Some i \<Rightarrow> i_pitch i)"
  "roll (apply_imu data s) = (case d_imu data of None \<Rightarrow> roll s | Some i \<Rightarrow> i_roll i)"
  "yaw (apply_imu data s) = (case d_imu data of None \<Rightarrow> yaw s | Some i \<Rightarrow> i_yaw i)"
  "heading (apply_imu data s) = (case d_imu data of None \<Rightarrow> heading s | Some i \<Rightarrow> i_heading i)"
  "gnss (apply_imu data s) = gnss s"
  "corrections (apply_imu data s) = corrections s"
  "target (apply_imu data s) = target s"
  "connected (apply_imu data s) = connected s"
  "ws (apply_imu data s) = ws s"
  "isAtTarget (apply_imu data s) = isAtTarget s"
  by (simp_all add: apply_imu_def split: option.split)

lemma apply_gnss_fields:
  "pitch (apply_gnss data s) = pitch s"
  "roll (apply_gnss data s) = roll s"
  "yaw (apply_gnss data s) = yaw s"
  "heading (apply_gnss data s) = heading s"
  "gnss (apply_gnss data s) = (case d_gnss data of None \<Rightarrow> gnss s | Some g \<Rightarrow> g)"
  "corrections (apply_gnss data s) = corrections s"
  "target (apply_gnss data s) = target s"
  "connected (apply_gnss data s) = connected s"
  "ws (apply_gnss data s) = ws s"
  "isAtTarget (apply_gnss data s) = isAtTarget s"
  by (simp_all add: apply_gnss_def split: option.split)

lemma apply_corrections_fields:
  "pitch (apply_corrections data s) = pitch s"
  "roll (apply_corrections data s) = roll s"
  "yaw (apply_corrections data s) = yaw s"
  "heading (apply_corrections data s) = heading s"
  "gnss (apply_corrections data s) = gnss s"
  "corrections (apply_corrections data s) =
     (case d_corrections data of None \<Rightarrow> corrections s | Some c \<Rightarrow> c)"
  "target (apply_corrections data s) = target s"
  "connected (apply_corrections data s) = connected s"
  "ws (apply_corrections data s) = ws s"
  "isAtTarget (apply_corrections data s) = isAtTarget s"
  by (simp_all add: apply_corrections_def split: option.split)

lemma apply_target_fields:
  "pitch (apply_target data s) = pitch s"
  "roll (apply_target data s) = roll s"
  "yaw (apply_target data s) = yaw s"
  "heading (apply_target data s) = heading s"
  "gnss (apply_target data s) = gnss s"
  "corrections (apply_target data s) = corrections s"
  "target (apply_target data s) = (case d_target data of None \<Rightarrow> target s | Some t \<Rightarrow> t)"
  "connected (apply_target data s) = connected s"
  "ws (apply_target data s) = ws s"
  "isAtTarget (apply_target data s) = isAtTarget s"
  by (simp_all add: apply_target_def split: option.split)

lemmas apply_fields =
  apply_imu_fields apply_gnss_fields apply_corrections_fields apply_target_fields

lemma onmessage_decoded:
  "JSON_parse ev_data = Inr data \<Longrightarrow>
   onmessage JSON_parse ev_data s =
     (apply_target data (apply_corrections data (apply_gnss data (apply_imu data s))), [])"
  by (simp add: onmessage_def)

text \<open>
  C8. For every frame that decodes, each of the four payloads is applied on its own: the
  orientation, the position, the corrections and the target are each overwritten with the
  payload when it is present and left as they were when it is absent; the connection flag,
  the socket handle and the on-target flag are not written by the handler. A frame with a
  position payload only changes the position and nothing else, also after the render that
  follows.
\<close>

theorem payloads_applied_independently:
  assumes "JSON_parse ev_data = Inr data"
  shows
    "(let s' = fst (onmessage JSON_parse ev_data s) in
       (case d_imu data of
          None \<Rightarrow> pitch s' = pitch s \<and> roll s' = roll s \<and> yaw s' = yaw s \<and>
                  heading s' = heading s
        | Some i \<Rightarrow> pitch s' = i_pitch i \<and> roll s' = i_roll i \<and> yaw s' = i_yaw i \<and>
                    heading s' = i_heading i) \<and>
       (case d_gnss data of None \<Rightarrow> gnss s' = gnss s | Some g \<Rightarrow> gnss s' = g) \<and>
       (case d_corrections data of
          None \<Rightarrow> corrections s' = corrections s | Some c \<Rightarrow> corrections s' = c) \<and>
       (case d_target data of None \<Rightarrow> target s' = target s | Some t \<Rightarrow> target s' = t) \<and>
       connected s' = connected s \<and> ws s' = ws s \<and> isAtTarget s' = isAtTarget s) \<and>
     snd (onmessage JSON_parse ev_data s) = [] \<and>
     (\<forall>g. d_imu data = None \<and> d_gnss data = Some g \<and> d_corrections data = None \<and>
          d_target data = None \<longrightarrow>
          fst (onmessage JSON_parse ev_data s) = s\<lparr>gnss := g\<rparr> \<and>
          deliver JSON_parse ev_data s = s\<lparr>gnss := g\<rparr>)"
proof -
  let ?s' = "fst (onmessage JSON_parse ev_data s)"
  have s': "?s' = apply_target data (apply_corrections data (apply_gnss data (apply_imu data s)))"
    using assms by (simp add: onmessage_decoded)
  have fields: "(case d_imu data of
          None \<Rightarrow> pitch ?s' = pitch s \<and> roll ?s' = roll s \<and> yaw ?s' = yaw s \<and>
                  heading ?s' = heading s
        | Some i \<Rightarrow> pitch ?s' = i_pitch i \<and> roll ?s' = i_roll i \<and> yaw ?s' = i_yaw i \<and>
                    heading ?s' = i_heading i)"
    "(case d_gnss data of None \<Rightarrow> gnss ?s' = gnss s | Some g \<Rightarrow> gnss ?s' = g)"
    "(case d_corrections data of
          None \<Rightarrow> corrections ?s' = corrections s | Some c \<Rightarrow> corrections ?s' = c)"
    "(case d_target data of None \<Rightarrow> target ?s' = target s | Some t \<Rightarrow> target ?s' = t)"
    "connected ?s' = connected s" "ws ?s' = ws s" "isAtTarget ?s' = isAtTarget s"
    unfolding s' by (simp_all add: apply_fields split: option.split)
  have no_effects: "snd (onmessage JSON_parse ev_data s) = []"
    using assms by (simp add: onmessage_decoded)
  have only_gnss: "?s' = s\<lparr>gnss := g\<rparr> \<and> deliver JSON_parse ev_data s = s\<lparr>gnss := g\<rparr>"
    if "d_imu data = None" "d_gnss data = Some g" "d_corrections data = None"
      "d_target data = None" for g
  proof -
    have eq: "?s' = s\<lparr>gnss := g\<rparr>"
      unfolding s' using that
      by (simp add: apply_imu_def apply_gnss_def apply_corrections_def apply_target_def)
    have "rerender s (s\<lparr>gnss := g\<rparr>) = s\<lparr>gnss := g\<rparr>"
      by (simp add: rerender_def rollError_def pitchError_def)
    with eq show ?thesis by (simp add: deliver_def)
  qed
  from fields no_effects only_gnss show ?thesis
    unfolding Let_def by blast
qed

theorem payloads_applied_independently_witness:
  \<open>sample_parse ''{"gnss":{"latitude":28.6139,"longitude":77.209,"altitude":216}}'' =
     Inr \<lparr>d_imu = None,
          d_gnss = Some \<lparr>latitude = fl 28.6139, longitude = fl 77.209, altitude = 216\<rparr>,
          d_corrections = None, d_target = None\<rparr> \<and>
   deliver sample_parse ''{"gnss":{"latitude":28.6139,"longitude":77.209,"altitude":216}}''
     (initial\<lparr>pitch := 3\<rparr>) =
   initial\<lparr>pitch := 3, gnss := \<lparr>latitude = fl 28.6139, longitude = fl 77.209, altitude = 216\<rparr>\<rparr>\<close>
proof -
  have dec: \<open>sample_parse ''{"gnss":{"latitude":28.6139,"longitude":77.209,"altitude":216}}'' =
     Inr \<lparr>d_imu = None,
          d_gnss = Some \<lparr>latitude = fl 28.6139, longitude = fl 77.209, altitude = 216\<rparr>,
          d_corrections = None, d_target = None\<rparr>\<close>
    by (simp add: sample_parse_def)
  from payloads_applied_independently [where JSON_parse = sample_parse
      and s = "initial\<lparr>pitch := 3\<rparr>", OF dec] dec
  show ?thesis by simp
qed

subsection \<open>The on-target flag\<close>

lemma onmessage_keeps_flag: "isAtTarget (fst (onmessage JSON_parse ev_data s)) = isAtTarget s"
  by (cases "JSON_parse ev_data") (simp_all add: onmessage_def apply_fields)

lemma onTargetEffect_errors:
  "pitchError (onTargetEffect s) = pitchError s" "rollError (onTargetEffect s) = rollError s"
  by (simp_all add: onTargetEffect_def pitchError_def rollError_def)

lemma onTargetEffect_current: "flag_current (onTargetEffect s)"
  by (simp add: flag_current_def onTargetEffect_errors) (auto simp add: onTargetEffect_def)

lemma deliver_keeps_flag_current:
  assumes "flag_current s"
  shows "flag_current (deliver JSON_parse ev_data s)"
proof -
  let ?s' = "fst (onmessage JSON_parse ev_data s)"
  show ?thesis
  proof (cases "rollError ?s' = rollError s \<and> pitchError ?s' = pitchError s")
    case True
    then have "deliver JSON_parse ev_data s = ?s'"
      by (simp add: deliver_def rerender_def)
    with True assms show ?thesis
      by (simp add: flag_current_def onmessage_keeps_flag)
  next
    case False
    then have "deliver JSON_parse ev_data s = onTargetEffect ?s'"
      by (auto simp add: deliver_def rerender_def)
    then show ?thesis
      by (simp add: onTargetEffect_current)
  qed
qed

lemma receive_keeps_flag_current:
  "flag_current s \<Longrightarrow> flag_current (receive JSON_parse frames s)"
proof (induction frames arbitrary: s)
  case Nil
  then show ?case by (simp add: receive_def)
next
  case (Cons ev_data frames)
  have "receive JSON_parse (ev_data # frames) s =
        receive JSON_parse frames (deliver JSON_parse ev_data s)"
    by (simp add: receive_def)
  with Cons show ?case
    by (simp add: deliver_keeps_flag_current)
qed

text \<open>The double of the literal \<open>0.2\<close> is not below the real number.\<close>

lemma double_of_threshold: "fl 0.2 = 3602879701896397 / 2 ^ 54" "\<not> fl 0.2 < 0.2"
  by (simp_all add: fl_eval)

text \<open>
  The comparison of the source is against that double. An error is a double, so it is below
  the number exactly when it is below the double of the literal.
\<close>

lemma threshold_as_double:
  "\<bar>pitchError s\<bar> < 0.2 \<longleftrightarrow> \<bar>pitchError s\<bar> < fl 0.2"
  "\<bar>rollError s\<bar> < 0.2 \<longleftrightarrow> \<bar>rollError s\<bar> < fl 0.2"
  unfolding pitchError_def rollError_def double_of_threshold(1) by (rule fl_threshold)+

text \<open>
  C3. For every pair of signed errors, the flag the on-target effect stores is true exactly
  when \<open>|pitchError| < 0.2\<close> and \<open>|rollError| < 0.2\<close>; both comparisons are strict, so an
  error of magnitude exactly 0.2 in either axis, the number or the double of the literal,
  makes the flag false. The effect runs again whenever an error changes: a flag that
  agrees with the errors of the session still agrees with them after any inbound frame,
  and so it does from the first render on, after every sequence of frames.
\<close>

theorem onTargetEffect_flag:
  "(isAtTarget (onTargetEffect s) \<longleftrightarrow> \<bar>pitchError s\<bar> < 0.2 \<and> \<bar>rollError s\<bar> < 0.2) \<and>
   (\<bar>pitchError s\<bar> = 0.2 \<or> \<bar>rollError s\<bar> = 0.2 \<or>
    \<bar>pitchError s\<bar> = fl 0.2 \<or> \<bar>rollError s\<bar> = fl 0.2 \<longrightarrow>
      \<not> isAtTarget (onTargetEffect s)) \<and>
   (flag_current s \<longrightarrow> flag_current (deliver JSON_parse ev_data s)) \<and>
   flag_current (receive JSON_parse frames (mount new_WebSocket))"
proof -
  have stored: "isAtTarget (onTargetEffect s) \<longleftrightarrow> \<bar>pitchError s\<bar> < 0.2 \<and> \<bar>rollError s\<bar> < 0.2"
    by (auto simp add: onTargetEffect_def Let_def)
  have edge: "\<not> isAtTarget (onTargetEffect s)"
    if "\<bar>pitchError s\<bar> = 0.2 \<or> \<bar>rollError s\<bar> = 0.2 \<or>
        \<bar>pitchError s\<bar> = fl 0.2 \<or> \<bar>rollError s\<bar> = fl 0.2"
    using that stored double_of_threshold(2) by auto
  have "flag_current (mount new_WebSocket)"
    by (simp add: mount_def onTargetEffect_current)
  then have "flag_current (receive JSON_parse frames (mount new_WebSocket))"
    by (rule receive_keeps_flag_current)
  with stored edge deliver_keeps_flag_current [of s JSON_parse ev_data] show ?thesis
    by blast
qed

theorem onTargetEffect_flag_witness:
  \<open>pitchError (initial\<lparr>pitch := fl 0.19\<rparr>) = fl 0.19 \<and>
   isAtTarget (onTargetEffect (initial\<lparr>pitch := fl 0.19\<rparr>)) \<and>
   \<bar>pitchError (initial\<lparr>pitch := fl 0.2\<rparr>)\<bar> = fl 0.2 \<and>
   \<not> isAtTarget (onTargetEffect (initial\<lparr>pitch := fl 0.2\<rparr>)) \<and>
   \<bar>rollError (initial\<lparr>roll := - fl 0.2\<rparr>)\<bar> = fl 0.2 \<and>
   \<not> isAtTarget (onTargetEffect (initial\<lparr>roll := - fl 0.2\<rparr>)) \<and>
   pitchError sample_edge = - fl 0.2 \<and>
   \<bar>pitch sample_edge - t_pitch (target sample_edge)\<bar> < 0.2 \<and>
   \<not> isAtTarget (onTargetEffect sample_edge) \<and>
   flag_current sample_open \<and>
   pitchError
     (deliver sample_parse ''{"imu":{"pitch":1.0,"roll":0,"yaw":5,"heading":90}}''
        sample_open) = - (900719925474099 / 2 ^ 52) \<and>
   isAtTarget
     (deliver sample_parse ''{"imu":{"pitch":1.0,"roll":0,"yaw":5,"heading":90}}''
        sample_open) \<and>
   isAtTarget (mount (Inr \<lparr>readyState = CONNECTING\<rparr>)) \<and>
   \<not> isAtTarget
       (receive sample_parse
          [''{"imu":{"pitch":1.0,"roll":0,"yaw":5,"heading":90}}'', ''{"imu":'']
          (mount (Inr \<lparr>readyState = CONNECTING\<rparr>)))\<close>
proof -
  have near: "pitchError (initial\<lparr>pitch := fl 0.19\<rparr>) = fl 0.19"
    "\<bar>pitchError (initial\<lparr>pitch := fl 0.19\<rparr>)\<bar> < 0.2"
    "\<bar>rollError (initial\<lparr>pitch := fl 0.19\<rparr>)\<bar> < 0.2"
    by (simp_all add: pitchError_def rollError_def initial_def fl_eval)
  have edge_pitch: "\<bar>pitchError (initial\<lparr>pitch := fl 0.2\<rparr>)\<bar> = fl 0.2"
    by (simp add: pitchError_def initial_def fl_eval)
  have edge_roll: "\<bar>rollError (initial\<lparr>roll := - fl 0.2\<rparr>)\<bar> = fl 0.2"
    by (simp add: rollError_def initial_def fl_eval)
  have edge_sum: "pitchError sample_edge = - fl 0.2"
    "\<bar>pitch sample_edge - t_pitch (target sample_edge)\<bar> < 0.2"
    "\<bar>pitchError sample_edge\<bar> = fl 0.2"
    by (simp_all add: pitchError_def sample_edge_def initial_def fl_eval)
  have cur: "flag_current sample_open"
    by (simp add: flag_current_def sample_open_def pitchError_def rollError_def fl_eval)
  have err: \<open>pitchError
     (deliver sample_parse ''{"imu":{"pitch":1.0,"roll":0,"yaw":5,"heading":90}}''
        sample_open) = - (900719925474099 / 2 ^ 52)\<close>
    \<open>rollError
     (deliver sample_parse ''{"imu":{"pitch":1.0,"roll":0,"yaw":5,"heading":90}}''
        sample_open) = - fl 0.1\<close>
    by (simp_all add: deliver_def rerender_def onmessage_def sample_parse_def apply_imu_def
        apply_gnss_def apply_corrections_def apply_target_def onTargetEffect_def
        pitchError_def rollError_def sample_open_def fl_eval)
  have small: "\<bar>- (900719925474099 / 2 ^ 52) :: real\<bar> < 0.2" "\<bar>- fl 0.1\<bar> < 0.2"
    by (simp_all add: fl_eval)
  have mount_eq: "mount (Inr \<lparr>readyState = CONNECTING\<rparr>) =
      initial\<lparr>ws := Some \<lparr>readyState = CONNECTING\<rparr>, isAtTarget := True\<rparr>"
    by (simp add: mount_def connect_def onTargetEffect_def pitchError_def rollError_def
        initial_def fl_zero)
  have handled: \<open>fst (onmessage sample_parse
        ''{"imu":{"pitch":1.0,"roll":0,"yaw":5,"heading":90}}''
        (mount (Inr \<lparr>readyState = CONNECTING\<rparr>))) =
      initial\<lparr>pitch := 1, yaw := 5, heading := 90,
        ws := Some \<lparr>readyState = CONNECTING\<rparr>, isAtTarget := True\<rparr>\<close>
    unfolding mount_eq
    by (simp add: onmessage_def sample_parse_def apply_imu_def apply_gnss_def
        apply_corrections_def apply_target_def initial_def)
  have errors_after: "pitchError (initial\<lparr>pitch := 1, yaw := 5, heading := 90,
        ws := Some \<lparr>readyState = CONNECTING\<rparr>, isAtTarget := True\<rparr>) = 1"
    "pitchError (mount (Inr \<lparr>readyState = CONNECTING\<rparr>)) = 0"
    unfolding mount_eq by (simp_all add: pitchError_def initial_def fl_eval)
  have delivered: \<open>deliver sample_parse
        ''{"imu":{"pitch":1.0,"roll":0,"yaw":5,"heading":90}}''
        (mount (Inr \<lparr>readyState = CONNECTING\<rparr>)) =
      onTargetEffect (initial\<lparr>pitch := 1, yaw := 5, heading := 90,
        ws := Some \<lparr>readyState = CONNECTING\<rparr>, isAtTarget := True\<rparr>)\<close>
    by (simp add: deliver_def rerender_def handled errors_after)
  have bad: \<open>sample_parse ''{"imu":'' = Inl SyntaxError\<close>
    by (simp add: sample_parse_def)
  have mounted: \<open>isAtTarget (mount (Inr \<lparr>readyState = CONNECTING\<rparr>))\<close>
    \<open>pitchError
       (receive sample_parse
          [''{"imu":{"pitch":1.0,"roll":0,"yaw":5,"heading":90}}'', ''{"imu":'']
          (mount (Inr \<lparr>readyState = CONNECTING\<rparr>))) = 1\<close>
    by (simp_all add: mount_eq [symmetric] receive_def deliver_malformed [where JSON_parse = sample_parse, OF bad] delivered
        onTargetEffect_errors errors_after) (simp add: mount_eq)
  have w1: "isAtTarget (onTargetEffect (initial\<lparr>pitch := fl 0.19\<rparr>))"
    using onTargetEffect_flag [of "initial\<lparr>pitch := fl 0.19\<rparr>" sample_parse "[]" "[]"
        "Inl SyntaxError"] near
    by blast
  have w2: "\<not> isAtTarget (onTargetEffect (initial\<lparr>pitch := fl 0.2\<rparr>))"
    using onTargetEffect_flag [of "initial\<lparr>pitch := fl 0.2\<rparr>" sample_parse "[]" "[]"
        "Inl SyntaxError"] edge_pitch
    by blast
  have w3: "\<not> isAtTarget (onTargetEffect (initial\<lparr>roll := - fl 0.2\<rparr>))"
    using onTargetEffect_flag [of "initial\<lparr>roll := - fl 0.2\<rparr>" sample_parse "[]" "[]"
        "Inl SyntaxError"] edge_roll
    by blast
  have w4: "\<not> isAtTarget (onTargetEffect sample_edge)"
    using onTargetEffect_flag [of sample_edge sample_parse "[]" "[]" "Inl SyntaxError"]
      edge_sum(3)
    by blast
  have w5: \<open>isAtTarget
     (deliver sample_parse ''{"imu":{"pitch":1.0,"roll":0,"yaw":5,"heading":90}}''
        sample_open)\<close>
    using onTargetEffect_flag [of sample_open sample_parse
        \<open>''{"imu":{"pitch":1.0,"roll":0,"yaw":5,"heading":90}}''\<close> "[]" "Inl SyntaxError"]
      cur err small
    by (simp add: flag_current_def)
  have w6: \<open>\<not> isAtTarget
       (receive sample_parse
          [''{"imu":{"pitch":1.0,"roll":0,"yaw":5,"heading":90}}'', ''{"imu":'']
          (mount (Inr \<lparr>readyState = CONNECTING\<rparr>)))\<close>
    using onTargetEffect_flag [of initial sample_parse "[]"
        \<open>[''{"imu":{"pitch":1.0,"roll":0,"yaw":5,"heading":90}}'', ''{"imu":'']\<close>
        "Inr \<lparr>readyState = CONNECTING\<rparr>"]
      mounted(2)
    by (simp add: flag_current_def)
  from near(1) w1 edge_pitch w2 edge_roll w3 edge_sum(1,2) w4 cur err(1) w5 mounted(1) w6
  show ?thesis by blast
qed

subsection \<open>The confirmation\<close>

text \<open>
  C6, as the claim states it, fails: \<open>handleSet\<close> does not read the connection flag. With
  the flag off and the socket open, it sends the command and produces a record; with the
  flag on and the socket closing, it sends nothing and tells the operator
  \<open>WebSocket not connected\<close>; and while the flag is off the button is disabled, so that a
  click surfaces nothing to the operator.
\<close>

theorem handleSet_gate_counterexample:
  \<open>\<not> connected sample_stale \<and>
   commands (snd (handleSet sample_browser sample_stale)) = [''{"command":"SET"}''] \<and>
   length (records (snd (handleSet sample_browser sample_stale))) = 1 \<and>
   alerts (snd (handleSet sample_browser sample_stale)) =
     [''SET confirmed. Position is now 0'' @ degree @ '' reference.''] \<and>
   connected sample_closing \<and>
   commands (snd (handleSet sample_browser sample_closing)) = [] \<and>
   records (snd (handleSet sample_browser sample_closing)) = [] \<and>
   alerts (snd (handleSet sample_browser sample_closing)) = [''WebSocket not connected''] \<and>
   \<not> connected sample_closed \<and>
   click_SET sample_browser sample_closed = (sample_closed, []) \<and>
   alerts (snd (click_SET sample_browser sample_closed)) = []\<close>
  by (simp add: handleSet_def saveToFile_def click_SET_def sample_stale_def sample_closing_def
      sample_closed_def sample_open_def)

text \<open>
  C6, amended. The confirmation is gated on the socket handle,
  \<open>ws?.readyState === WebSocket.OPEN\<close>, not on the connection flag. Attempted while there
  is no socket yet or the socket's state is not \<open>OPEN\<close>, it tells the operator
  \<open>WebSocket not connected\<close>, sends no command, produces no record and leaves the session
  as it was. Attempted while the socket is open, it sends the one command
  \<open>{"command":"SET"}\<close> and produces one record, the text of \<open>saveToFile\<close> under the name
  \<open>Artillery_<time>.txt\<close>. The connection flag disables the button: a click while the flag
  is off does nothing, and a click while it is on is the confirmation.
\<close>

theorem handleSet_gated:
  \<open>(map_option readyState (ws s) \<noteq> Some OPEN \<longrightarrow>
      fst (handleSet b s) = s \<and>
      alerts (snd (handleSet b s)) = [''WebSocket not connected''] \<and>
      commands (snd (handleSet b s)) = [] \<and>
      records (snd (handleSet b s)) = []) \<and>
   (map_option readyState (ws s) = Some OPEN \<longrightarrow>
      commands (snd (handleSet b s)) = [''{"command":"SET"}''] \<and>
      records (snd (handleSet b s)) =
        [(''Artillery_'' @ digits (Date_now b) @ ''.txt'', record_txt b s)]) \<and>
   (\<not> connected s \<longrightarrow> click_SET b s = (s, [])) \<and>
   (connected s \<longrightarrow> click_SET b s = handleSet b s)\<close>
  by (simp add: handleSet_def saveToFile_def click_SET_def)

theorem handleSet_gated_witness:
  \<open>map_option readyState (ws initial) \<noteq> Some OPEN \<and>
   alerts (snd (handleSet sample_browser initial)) = [''WebSocket not connected''] \<and>
   commands (snd (handleSet sample_browser initial)) = [] \<and>
   records (snd (handleSet sample_browser initial)) = [] \<and>
   map_option readyState (ws sample_closed) \<noteq> Some OPEN \<and>
   commands (snd (handleSet sample_browser sample_closed)) = [] \<and>
   records (snd (handleSet sample_browser sample_closed)) = [] \<and>
   map_option readyState (ws sample_open) = Some OPEN \<and>
   commands (snd (handleSet sample_browser sample_open)) = [''{"command":"SET"}''] \<and>
   length (records (snd (handleSet sample_browser sample_open))) = 1 \<and>
   \<not> connected initial \<and> click_SET sample_browser initial = (initial, []) \<and>
   connected sample_open \<and>
   click_SET sample_browser sample_open = handleSet sample_browser sample_open\<close>
proof -
  have states: "map_option readyState (ws initial) \<noteq> Some OPEN"
    "map_option readyState (ws sample_closed) \<noteq> Some OPEN"
    "map_option readyState (ws sample_open) = Some OPEN"
    "\<not> connected initial" "connected sample_open"
    by (simp_all add: initial_def sample_closed_def sample_open_def)
  from handleSet_gated [of initial sample_browser]
    handleSet_gated [of sample_closed sample_browser]
    handleSet_gated [of sample_open sample_browser] states
  show ?thesis by simp
qed

text \<open>
  C10, as the claim states it, fails: besides sending the command and emitting the record,
  a successful confirmation shows the operator a dialog.
\<close>

theorem confirmation_effects_counterexample:
  \<open>map_option readyState (ws sample_open) = Some OPEN \<and>
   snd (handleSet sample_browser sample_open) \<noteq>
     [Send ''{"command":"SET"}'', saveToFile sample_browser sample_open] \<and>
   alerts (snd (handleSet sample_browser sample_open)) =
     [''SET confirmed. Position is now 0'' @ degree @ '' reference.'']\<close>
  by (simp add: handleSet_def saveToFile_def sample_open_def)

text \<open>
  C10, amended. A successful confirmation leaves every entity of the session unchanged,
  the target among them; its outward actions are, in this order, the command on the
  socket, the download of the record, and the dialog that tells the operator. The target
  is not zeroed locally: after the confirmation it is what it was, and a later frame
  changes it only by carrying a target payload.
\<close>

theorem confirmation_leaves_session:
  assumes "map_option readyState (ws s) = Some OPEN"
  shows
    \<open>fst (handleSet b s) = s \<and>
     snd (handleSet b s) =
       [Send ''{"command":"SET"}'',
        Download (''Artillery_'' @ digits (Date_now b) @ ''.txt'') (record_txt b s),
        Alert (''SET confirmed. Position is now 0'' @ degree @ '' reference.'')] \<and>
     target (fst (handleSet b s)) = target s \<and>
     (JSON_parse ev_data = Inr data \<longrightarrow>
        target (fst (onmessage JSON_parse ev_data (fst (handleSet b s)))) =
          (case d_target data of None \<Rightarrow> target s | Some t \<Rightarrow> t))\<close>
proof -
  have same: "fst (handleSet b s) = s"
    by (simp add: handleSet_def)
  have effects: \<open>snd (handleSet b s) =
       [Send ''{"command":"SET"}'',
        Download (''Artillery_'' @ digits (Date_now b) @ ''.txt'') (record_txt b s),
        Alert (''SET confirmed. Position is now 0'' @ degree @ '' reference.'')]\<close>
    using assms by (simp add: handleSet_def saveToFile_def)
  have later: "target (fst (onmessage JSON_parse ev_data s)) =
          (case d_target data of None \<Rightarrow> target s | Some t \<Rightarrow> t)"
    if "JSON_parse ev_data = Inr data"
    using that by (simp add: onmessage_decoded apply_fields split: option.split)
  from same effects later show ?thesis by simp
qed

theorem confirmation_leaves_session_witness:
  \<open>map_option readyState (ws sample_open) = Some OPEN \<and>
   fst (handleSet sample_browser sample_open) = sample_open \<and>
   target (fst (handleSet sample_browser sample_open)) =
     \<lparr>t_pitch = fl 1.2, t_roll = fl 0.1, t_yaw = 0\<rparr> \<and>
   length (snd (handleSet sample_browser sample_open)) = 3\<close>
proof -
  have op: "map_option readyState (ws sample_open) = Some OPEN"
    by (simp add: sample_open_def)
  from confirmation_leaves_session [OF op, of sample_browser] op
  show ?thesis by (simp add: sample_open_def)
qed

subsection \<open>The session record\<close>






lemma digits_nonempty: "digits n \<noteq> []"
  by (subst digits.simps) simp






























end
